theory Spec2Isabelle
  imports Main "HOL-Library.Char_ord" "HOL-Library.List_Lexorder" "HOL-Library.AList"
begin

section \<open>Machine integers\<close>

text \<open>
  Go's \<open>int64\<close> (and \<open>int\<close> on a 64-bit platform) is modelled as an \<open>int\<close> in the
  range \<open>-2^63 ..< 2^63\<close>; \<open>int64\<close> is the conversion into that range, which is also
  what an overflowing addition does (Go wraps signed overflow).
\<close>

definition int64 :: "int \<Rightarrow> int" where
  "int64 x = (x + 2 ^ 63) mod 2 ^ 64 - 2 ^ 63"

definition in_int64 :: "int \<Rightarrow> bool" where
  "in_int64 x = (- (2 ^ 63) \<le> x \<and> x < 2 ^ 63)"

section \<open>ProgressReader\<close>

text \<open>
  Go's \<open>error\<close> values: \<open>io.EOF\<close>, the errors of the file system calls that the
  code tells apart (\<open>ENOENT\<close> is the one \<open>os.IsNotExist\<close> recognises), and any other
  error, kept by its message.
\<close>

datatype error = EOF | ENOENT | ENOTDIR | EISDIR | Err string

fun errorString :: "error \<Rightarrow> string" where
  "errorString EOF = ''EOF''"
| "errorString ENOENT = ''no such file or directory''"
| "errorString ENOTDIR = ''not a directory''"
| "errorString EISDIR = ''is a directory''"
| "errorString (Err msg) = msg"

text \<open>
  An \<open>io.Reader\<close>: \<open>Read(p)\<close> takes the reader's state and \<open>len(p)\<close> and returns
  \<open>(n, err)\<close> and the reader's new state. The bytes stored into \<open>p\<close> play no part
  in the counting and are left out.
\<close>

type_synonym 's Reader = "'s \<Rightarrow> nat \<Rightarrow> (int \<times> error option) \<times> 's"

record 's ProgressReader =
  proxiedReader :: 's
  BytesRead :: int

definition NewProgressReader :: "'s \<Rightarrow> 's ProgressReader" where
  "NewProgressReader proxied = \<lparr>proxiedReader = proxied, BytesRead = 0\<rparr>"

text \<open>
  \<^verbatim>\<open>
  func (r *ProgressReader) Read(p []byte) (n int, err error) {
      n, err = r.proxiedReader.Read(p)
      if n > 0 { r.BytesRead += int64(n) } else { r.BytesRead += int64(len(p)) }
      return n, err
  }
  \<close>
\<close>

definition Read :: "'s Reader \<Rightarrow> 's ProgressReader \<Rightarrow> nat \<Rightarrow> (int \<times> error option) \<times> 's ProgressReader" where
  "Read rd r lenp =
     (case rd (proxiedReader r) lenp of
        ((n, err), s') \<Rightarrow>
          ((n, err),
           r\<lparr>proxiedReader := s',
             BytesRead := (if n > 0 then int64 (BytesRead r + int64 n)
                           else int64 (BytesRead r + int64 (int lenp)))\<rparr>))"

text \<open>What one call adds to \<open>BytesRead\<close>, before any wrap-around.\<close>

definition credited :: "nat \<times> (int \<times> error option) \<Rightarrow> int" where
  "credited c = (case c of (lenp, (n, err)) \<Rightarrow> if n > 0 then n else int lenp)"

text \<open>
  A caller that reads until the first error (as \<open>io.Copy\<close> and \<open>ioutil.ReadAll\<close> do),
  passing buffers of the given lengths. It returns what every call returned, and the
  reader afterwards.
\<close>

fun readToEnd :: "'s Reader \<Rightarrow> 's ProgressReader \<Rightarrow> nat list \<Rightarrow> (int \<times> error option) list \<times> 's ProgressReader" where
  "readToEnd rd r [] = ([], r)"
| "readToEnd rd r (l # ls) =
     (case Read rd r l of
        ((n, err), r') \<Rightarrow>
          (case err of
             Some e \<Rightarrow> ([(n, err)], r')
           | None \<Rightarrow> (case readToEnd rd r' ls of (res, r'') \<Rightarrow> ((n, err) # res, r''))))"

text \<open>
  A concrete wrapped reader, Go's \<open>bytes.Reader\<close>: the state is the number of bytes
  left; at the end it returns \<open>(0, io.EOF)\<close>, before it \<open>(min(len(p), left), nil)\<close>.
\<close>

definition bytesReader :: "nat Reader" where
  "bytesReader left lenp =
     (if left = 0 then ((0, Some EOF), 0)
      else ((int (min lenp left), None), left - min lenp left))"


section \<open>Library functions the code calls\<close>

subsection \<open>strconv\<close>

text \<open>
  \<open>strconv.Itoa\<close>: the decimal digits of an integer, with a leading \<open>-\<close> when negative.
\<close>

definition digitChar :: "nat \<Rightarrow> char" where
  "digitChar d = ''0123456789'' ! d"

fun digitsOf :: "nat \<Rightarrow> string" where
  "digitsOf n = (if n < 10 then [digitChar n] else digitsOf (n div 10) @ [digitChar (n mod 10)])"

declare digitsOf.simps [simp del]

definition Itoa :: "int \<Rightarrow> string" where
  "Itoa i = (if i < 0 then CHR ''-'' # digitsOf (nat (- i)) else digitsOf (nat i))"

text \<open>
  \<open>strconv.Atoi\<close>: an optional sign and then decimal digits only. On a syntax error
  the value is 0; out of the \<open>int\<close> range the value is the nearest bound, with an error.
\<close>

definition isDigit :: "char \<Rightarrow> bool" where
  "isDigit c = (c \<in> set ''0123456789'')"

definition digitVal :: "char \<Rightarrow> nat" where
  "digitVal c = of_char c - 48"

definition Atoi :: "string \<Rightarrow> int \<times> error option" where
  "Atoi s =
     (let neg = (s \<noteq> [] \<and> hd s = CHR ''-'');
          ds = (if s \<noteq> [] \<and> (hd s = CHR ''-'' \<or> hd s = CHR ''+'') then tl s else s)
      in if ds = [] \<or> \<not> list_all isDigit ds then (0, Some (Err ''invalid syntax''))
         else
           let v = int (foldl (\<lambda>a c. 10 * a + digitVal c) 0 ds);
               i = (if neg then - v else v)
           in if i < - (2 ^ 63) then (- (2 ^ 63), Some (Err ''value out of range''))
              else if 2 ^ 63 \<le> i then (2 ^ 63 - 1, Some (Err ''value out of range''))
              else (i, None))"

subsection \<open>path and path/filepath\<close>

text \<open>The elements of a path between its slashes, as \<open>strings.Split(p, "/")\<close> gives them.\<close>

fun splitOn :: "char \<Rightarrow> string \<Rightarrow> string list" where
  "splitOn sep [] = [[]]"
| "splitOn sep (c # cs) =
     (if c = sep then [] # splitOn sep cs
      else (case splitOn sep cs of [] \<Rightarrow> [[c]] | e # es \<Rightarrow> (c # e) # es))"

fun joinWith :: "string \<Rightarrow> string list \<Rightarrow> string" where
  "joinWith sep [] = []"
| "joinWith sep [e] = e"
| "joinWith sep (e # es) = e @ sep @ joinWith sep es"

text \<open>
  \<open>path.Clean\<close>, element by element: empty elements and \<open>.\<close> are dropped; \<open>..\<close> removes
  the element before it when there is one that is not itself \<open>..\<close>, is dropped at the
  root of a rooted path, and is kept otherwise. \<open>kept\<close> is the output so far, last
  element first. The empty result is \<open>.\<close>.
\<close>

fun cleanElems :: "bool \<Rightarrow> string list \<Rightarrow> string list \<Rightarrow> string list" where
  "cleanElems rooted kept [] = rev kept"
| "cleanElems rooted kept (e # es) =
     (if e = [] \<or> e = ''.'' then cleanElems rooted kept es
      else if e = ''..'' then
        (case kept of
           [] \<Rightarrow> if rooted then cleanElems rooted [] es else cleanElems rooted [''..''] es
         | k # ks \<Rightarrow> if k = ''..'' then cleanElems rooted (''..'' # kept) es
                     else cleanElems rooted ks es)
      else cleanElems rooted (e # kept) es)"

definition IsAbs :: "string \<Rightarrow> bool" where
  "IsAbs p = (p \<noteq> [] \<and> hd p = CHR ''/'')"

definition Clean :: "string \<Rightarrow> string" where
  "Clean p =
     (let es = cleanElems (IsAbs p) [] (splitOn CHR ''/'' p)
      in if IsAbs p then CHR ''/'' # joinWith ''/'' es
         else if es = [] then ''.'' else joinWith ''/'' es)"

text \<open>\<open>path.Join\<close> (and \<open>filepath.Join\<close>): empty elements are ignored, the rest cleaned.\<close>

definition Join :: "string list \<Rightarrow> string" where
  "Join elem =
     (case filter (\<lambda>e. e \<noteq> []) elem of
        [] \<Rightarrow> []
      | es \<Rightarrow> Clean (joinWith ''/'' es))"

text \<open>
  \<open>path.Ext\<close>: the suffix from the last dot of the last element of the path, empty when
  that element has no dot. \<open>extRev\<close> walks the reversed path as the loop walks it from
  its end, \<open>seen\<close> being the characters passed.
\<close>

fun extRev :: "string \<Rightarrow> string \<Rightarrow> string" where
  "extRev [] seen = []"
| "extRev (c # cs) seen =
     (if c = CHR ''/'' then []
      else if c = CHR ''.'' then c # seen
      else extRev cs (c # seen))"

definition Ext :: "string \<Rightarrow> string" where
  "Ext p = extRev (rev p) []"

text \<open>\<open>filepath.Abs\<close>, given the working directory.\<close>

definition Abs :: "string \<Rightarrow> string \<Rightarrow> string" where
  "Abs wd p = (if IsAbs p then Clean p else Join [wd, p])"


section \<open>The file system and the process\<close>

text \<open>
  The file system is a tree: a regular file with its contents, or a directory with its
  named entries. There are no permissions, links or I/O faults, so a call fails only for
  the shape of the tree: a missing entry, a file where a directory is needed, a
  directory where a file is written.
\<close>

datatype node = File string | Dir "(string \<times> node) list"

fun isDirNode :: "node \<Rightarrow> bool" where
  "isDirNode (Dir es) = True"
| "isDirNode (File d) = False"

record FileInfo =
  Name :: string
  IsDir :: bool

fun lookupNode :: "node \<Rightarrow> string list \<Rightarrow> error + node" where
  "lookupNode n [] = Inr n"
| "lookupNode (File d) (c # cs) = Inl ENOTDIR"
| "lookupNode (Dir es) (c # cs) =
     (case map_of es c of None \<Rightarrow> Inl ENOENT | Some n \<Rightarrow> lookupNode n cs)"

text \<open>Replace the node at a path, or add it to its parent directory when it is new.\<close>

fun putNode :: "node \<Rightarrow> string list \<Rightarrow> node \<Rightarrow> error + node" where
  "putNode n [] new = Inr new"
| "putNode (File d) (c # cs) new = Inl ENOTDIR"
| "putNode (Dir es) (c # cs) new =
     (case map_of es c of
        None \<Rightarrow> if cs = [] then Inr (Dir (es @ [(c, new)])) else Inl ENOENT
      | Some n \<Rightarrow>
          (case putNode n cs new of
             Inl e \<Rightarrow> Inl e
           | Inr n' \<Rightarrow> Inr (Dir (AList.update c n' es))))"

text \<open>
  \<open>os.MkdirAll\<close> on the tree: every missing directory along the path is created; a
  directory already there is left as it is; a regular file on the path is an error.
\<close>

fun mkdirAll :: "node \<Rightarrow> string list \<Rightarrow> error + node" where
  "mkdirAll (File d) cs = Inl ENOTDIR"
| "mkdirAll (Dir es) [] = Inr (Dir es)"
| "mkdirAll (Dir es) (c # cs) =
     (case map_of es c of
        None \<Rightarrow>
          (case mkdirAll (Dir []) cs of
             Inl e \<Rightarrow> Inl e
           | Inr n' \<Rightarrow> Inr (Dir (es @ [(c, n')])))
      | Some n \<Rightarrow>
          (case mkdirAll n cs of
             Inl e \<Rightarrow> Inl e
           | Inr n' \<Rightarrow> Inr (Dir (AList.update c n' es))))"

text \<open>
  What the code reads and changes outside its own variables: the file system, the
  working directory, the environment variables, the lines written by \<open>log\<close> and by
  \<open>fmt.Println\<close>, and \<open>clock\<close>, the number of samples drawn from the identifier index
  so far (the collaborators' answers may change from one draw to the next).
\<close>

record world =
  root :: node
  cwd :: string
  environ :: "string \<Rightarrow> string option"
  logged :: "string list"
  printed :: "string list"
  clock :: nat

definition logPrint :: "string \<Rightarrow> world \<Rightarrow> world" where
  "logPrint msg w = w\<lparr>logged := logged w @ [msg]\<rparr>"

text \<open>The elements of the absolute path a path names, from the root down.\<close>

definition resolve :: "world \<Rightarrow> string \<Rightarrow> string list" where
  "resolve w p = filter (\<lambda>e. e \<noteq> []) (splitOn CHR ''/'' (Abs (cwd w) p))"

definition Base :: "string list \<Rightarrow> string" where
  "Base cs = (if cs = [] then ''/'' else last cs)"

definition Stat :: "world \<Rightarrow> string \<Rightarrow> error + FileInfo" where
  "Stat w p =
     (case lookupNode (root w) (resolve w p) of
        Inl e \<Rightarrow> Inl e
      | Inr n \<Rightarrow> Inr \<lparr>Name = Base (resolve w p), IsDir = isDirNode n\<rparr>)"

text \<open>\<open>ioutil.ReadDir\<close>: the entries of a directory, sorted by file name.\<close>

definition ReadDir :: "world \<Rightarrow> string \<Rightarrow> error + FileInfo list" where
  "ReadDir w p =
     (case lookupNode (root w) (resolve w p) of
        Inl e \<Rightarrow> Inl e
      | Inr (File d) \<Rightarrow> Inl ENOTDIR
      | Inr (Dir es) \<Rightarrow>
          Inr (sort_key Name (map (\<lambda>(name, n). \<lparr>Name = name, IsDir = isDirNode n\<rparr>) es)))"

text \<open>
  \<open>ioutil.WriteFile\<close>: creates or replaces the file; fails when the path is a
  directory or its parent is not an existing directory.
\<close>

definition WriteFile :: "world \<Rightarrow> string \<Rightarrow> string \<Rightarrow> error option \<times> world" where
  "WriteFile w p content =
     (case lookupNode (root w) (resolve w p) of
        Inr (Dir es) \<Rightarrow> (Some EISDIR, w)
      | _ \<Rightarrow>
          (case putNode (root w) (resolve w p) (File content) of
             Inl e \<Rightarrow> (Some e, w)
           | Inr r \<Rightarrow> (None, w\<lparr>root := r\<rparr>)))"

definition MkdirAll :: "world \<Rightarrow> string \<Rightarrow> error option \<times> world" where
  "MkdirAll w p =
     (case mkdirAll (root w) (resolve w p) of
        Inl e \<Rightarrow> (Some e, w)
      | Inr r \<Rightarrow> (None, w\<lparr>root := r\<rparr>))"


section \<open>The cache filler and the watcher\<close>

record OCRLine =
  ImageURL :: string
  PreviousImageURL :: string
  NextImageURL :: string
  Transcription :: string

text \<open>
  Modelled from the spec: what \<open>IDCache.Random\<close> returns (its type is not among the
  sources). The code reads its \<open>Identifier\<close>; the spec gives an entry an identifier and
  a year.
\<close>

record IdentifierEntry =
  Identifier :: string
  Year :: int

text \<open>
  What the \<open>select\<close> of the inner loop receives: a progress value from \<open>progChan\<close>, with
  its \<open>Error\<close> (the \<open>Progress\<close> fraction only moves the progress bar and is left out),
  or the lines from \<open>lineChan\<close>.
\<close>

datatype received = FromProgChan "error option" | FromLineChan "OCRLine list"

text \<open>
  The functions \<open>CacheLines\<close> calls that are defined elsewhere, as parameters. The first
  argument of each is the number of the draw it serves: their answers come from a
  random generator and from the network. \<open>FetchLines\<close> gives its error, or the values
  the two channels deliver in the order the \<open>select\<close> takes them; when they run out
  with no lines delivered, the \<open>select\<close> waits for ever. \<open>Marshal\<close> is \<open>json.Marshal\<close>.
\<close>

record collaborators =
  Random :: "nat \<Rightarrow> int \<Rightarrow> IdentifierEntry"
  IsFraktur :: "nat \<Rightarrow> string \<Rightarrow> bool \<times> error option"
  FetchLines :: "nat \<Rightarrow> string \<Rightarrow> error + received list"
  Marshal :: "OCRLine list \<Rightarrow> string"

text \<open>
  How one pass through the body of the \<open>OuterCache\<close> loop ends: with \<open>continue\<close>, with
  \<open>return filePath\<close>, or never, waiting in the \<open>select\<close>.
\<close>

datatype pass = Continue world | Return string world | Blocked

text \<open>
  \<^verbatim>\<open>
  for {
      select {
      case prog := <-progChan:
          if prog.Error != nil {
              log.Printf("Error while getting lines for %s: %+v", ident, prog.Error)
              continue OuterCache
          } else if printProgress { progBar.SetCurrent(int64(prog.Progress * 100)) }
      case lines := <-lineChan:
          filePath := path.Join(yearPath, ident+".json")
          lineJSON, _ := json.Marshal(lines)
          ioutil.WriteFile(filePath, lineJSON, 0644)
          if printProgress { progBar.Finish() }
          return filePath
      }
  }
  \<close>
  The progress bar is terminal output only and is not part of the world.
\<close>

fun selectLoop :: "collaborators \<Rightarrow> string \<Rightarrow> string \<Rightarrow> received list \<Rightarrow> world \<Rightarrow> pass" where
  "selectLoop c yearPath ident [] w = Blocked"
| "selectLoop c yearPath ident (FromProgChan err # rest) w =
     (case err of
        Some e \<Rightarrow>
          Continue (logPrint (''Error while getting lines for '' @ ident @ '': '' @ errorString e) w)
      | None \<Rightarrow> selectLoop c yearPath ident rest w)"
| "selectLoop c yearPath ident (FromLineChan lines # rest) w =
     (let filePath = Join [yearPath, ident @ ''.json''];
          lineJSON = Marshal c lines;
          w' = snd (WriteFile w filePath lineJSON)
      in Return filePath w')"

text \<open>
  One pass through the body of the \<open>OuterCache\<close> loop of \<open>CacheLines\<close> (\<open>yearPath\<close> is
  computed before the loop, from the same arguments each time).
\<close>

definition fillAttempt :: "collaborators \<Rightarrow> string \<Rightarrow> int \<Rightarrow> bool \<Rightarrow> world \<Rightarrow> pass" where
  "fillAttempt c cachePath year printProgress w =
     (let yearPath = Join [cachePath, Itoa year];
          k = clock w;
          w1 = w\<lparr>clock := Suc k\<rparr>;
          entry = Random c k year;
          ident = Identifier entry;
          isFrak = fst (IsFraktur c k ident)
      in if \<not> isFrak then Continue w1
         else
           (case FetchLines c k ident of
              Inl err \<Rightarrow>
                Continue (logPrint (''Error while getting OCR for '' @ ident @ '': '' @ errorString err) w1)
            | Inr received \<Rightarrow>
                selectLoop c yearPath ident received
                  (logPrint (''Caching lines for '' @ Itoa year @ '' from '' @ ident) w1)))"

text \<open>
  \<open>CacheLines\<close>: the loop has no exit but \<open>return filePath\<close>. \<open>None\<close> is a call that
  never returns.
\<close>

partial_function (option) CacheLines :: "collaborators \<Rightarrow> string \<Rightarrow> int \<Rightarrow> bool \<Rightarrow> world \<Rightarrow> (string \<times> world) option" where
  "CacheLines c cachePath year printProgress w =
     (case fillAttempt c cachePath year printProgress w of
        Continue w' \<Rightarrow> CacheLines c cachePath year printProgress w'
      | Return filePath w' \<Rightarrow> Some (filePath, w')
      | Blocked \<Rightarrow> None)"

declare CacheLines.simps [code]

text \<open>
  \<open>cacheWatcher\<close>, from the inside out. The loop over the entries of a year directory:
  \<^verbatim>\<open>
  for _, f := range dirContent {
      if f.IsDir() || path.Ext(f.Name()) != ".json" { continue }
      cacheFiles[year] = append(cacheFiles[year], path.Join(yearPath, f.Name()))
  }
  \<close>
\<close>

fun appendJSON :: "string \<Rightarrow> FileInfo list \<Rightarrow> string list \<Rightarrow> string list" where
  "appendJSON yearPath [] files = files"
| "appendJSON yearPath (f # rest) files =
     (if IsDir f \<or> Ext (Name f) \<noteq> ''.json'' then appendJSON yearPath rest files
      else appendJSON yearPath rest (files @ [Join [yearPath, Name f]]))"

text \<open>
  \<^verbatim>\<open>
  for len(cacheFiles[year]) < 3 {
      cacheFiles[year] = append(cacheFiles[year], CacheLines(basePath, year, true))
  }
  \<close>
\<close>

function fillUp :: "collaborators \<Rightarrow> string \<Rightarrow> int \<Rightarrow> string list \<Rightarrow> world \<Rightarrow> (string list \<times> world) option" where
  "fillUp c basePath year files w =
     (if length files < 3 then
        (case CacheLines c basePath year True w of
           None \<Rightarrow> None
         | Some (filePath, w') \<Rightarrow> fillUp c basePath year (files @ [filePath]) w')
      else Some (files, w))"
  by pat_completeness auto
termination
  by (relation "measure (\<lambda>(c, basePath, year, files, w). 3 - length files)") auto

declare fillUp.simps [simp del]

text \<open>
  The loop over the entries of \<open>basePath\<close>, with \<open>cacheFiles\<close> as it stands:
  \<^verbatim>\<open>
  for _, yearDir := range yearDirs {
      if !yearDir.IsDir() { continue }
      year, _ := strconv.Atoi(yearDir.Name())
      yearPath := path.Join(basePath, yearDir.Name())
      dirContent, _ := ioutil.ReadDir(yearPath)
      cacheFiles[year] = make([]string, len(dirContent))
      ... the two loops above ...
  }
  \<close>
  \<open>make([]string, n)\<close> is a slice of \<open>n\<close> empty strings.
\<close>

fun watchYears :: "collaborators \<Rightarrow> string \<Rightarrow> FileInfo list \<Rightarrow> (int \<Rightarrow> string list option) \<Rightarrow> world \<Rightarrow> ((int \<Rightarrow> string list option) \<times> world) option" where
  "watchYears c basePath [] cacheFiles w = Some (cacheFiles, w)"
| "watchYears c basePath (yearDir # rest) cacheFiles w =
     (if \<not> IsDir yearDir then watchYears c basePath rest cacheFiles w
      else
        (let year = fst (Atoi (Name yearDir));
             yearPath = Join [basePath, Name yearDir];
             dirContent = (case ReadDir w yearPath of Inl e \<Rightarrow> [] | Inr infos \<Rightarrow> infos);
             made = replicate (length dirContent) [];
             files = appendJSON yearPath dirContent made
         in case fillUp c basePath year files w of
              None \<Rightarrow> None
            | Some (filled, w') \<Rightarrow> watchYears c basePath rest (cacheFiles(year \<mapsto> filled)) w'))"

text \<open>
  \<open>cacheWatcher\<close> returns \<open>(nil, err)\<close> when \<open>basePath\<close> cannot be read and
  \<open>(cacheChannels, nil)\<close> otherwise; \<open>cacheChannels\<close> is the empty map it was made as
  (a channel is modelled by the strings waiting in it). \<open>None\<close> is a call that never
  returns.
\<close>

definition cacheWatcher :: "collaborators \<Rightarrow> string \<Rightarrow> world \<Rightarrow> ((error + (int \<Rightarrow> string list option)) \<times> world) option" where
  "cacheWatcher c basePath w =
     (let cacheChannels = Map.empty;
          cacheFiles = Map.empty
      in case ReadDir w basePath of
           Inl err \<Rightarrow> Some (Inl err, w)
         | Inr yearDirs \<Rightarrow>
             (case watchYears c basePath yearDirs cacheFiles w of
                None \<Rightarrow> None
              | Some (cacheFiles', w') \<Rightarrow> Some (Inr cacheChannels, w')))"

text \<open>The number of cached files a year directory holds: its regular \<open>.json\<close> files.\<close>

definition cachedCount :: "world \<Rightarrow> string \<Rightarrow> nat" where
  "cachedCount w yearPath =
     (case ReadDir w yearPath of
        Inl e \<Rightarrow> 0
      | Inr infos \<Rightarrow> length (filter (\<lambda>f. \<not> IsDir f \<and> Ext (Name f) = ''.json'') infos))"

text \<open>
  How a fetch ends, read off the values its channels deliver: with an error on the
  progress channel, with the lines, or (\<open>None\<close>) with neither.
\<close>

fun fetchOutcome :: "received list \<Rightarrow> (error + OCRLine list) option" where
  "fetchOutcome [] = None"
| "fetchOutcome (FromProgChan None # rest) = fetchOutcome rest"
| "fetchOutcome (FromProgChan (Some e) # rest) = Some (Inl e)"
| "fetchOutcome (FromLineChan lines # rest) = Some (Inr lines)"

text \<open>
  The world after \<open>n\<close> passes of the loop of \<open>CacheLines\<close> that all ended with
  \<open>continue\<close>; \<open>None\<close> when one of them did not.
\<close>

fun afterFailures :: "collaborators \<Rightarrow> string \<Rightarrow> int \<Rightarrow> bool \<Rightarrow> nat \<Rightarrow> world \<Rightarrow> world option" where
  "afterFailures c cachePath year printProgress 0 w = Some w"
| "afterFailures c cachePath year printProgress (Suc n) w =
     (case fillAttempt c cachePath year printProgress w of
        Continue w' \<Rightarrow> afterFailures c cachePath year printProgress n w'
      | Return filePath w' \<Rightarrow> None
      | Blocked \<Rightarrow> None)"

text \<open>
  Names for what a pass of the loop of \<open>CacheLines\<close> that starts in world \<open>w\<close> works
  with: the identifier it draws, the path of its cache file, and the world when its
  fetch has begun (the draw counted, the start logged).
\<close>

definition drawn :: "collaborators \<Rightarrow> int \<Rightarrow> world \<Rightarrow> string" where
  "drawn c year w = Identifier (Random c (clock w) year)"

definition cacheFilePath :: "collaborators \<Rightarrow> string \<Rightarrow> int \<Rightarrow> world \<Rightarrow> string" where
  "cacheFilePath c cachePath year w = Join [Join [cachePath, Itoa year], drawn c year w @ ''.json'']"

definition fetching :: "collaborators \<Rightarrow> int \<Rightarrow> world \<Rightarrow> world" where
  "fetching c year w =
     logPrint (''Caching lines for '' @ Itoa year @ '' from '' @ drawn c year w)
       (w\<lparr>clock := Suc (clock w)\<rparr>)"


section \<open>Start-up\<close>

text \<open>
  How a function leaves: by returning, by a panic with its message, or by \<open>os.Exit\<close>.
\<close>

datatype exit = Returned | Panicked string | Exited int

text \<open>
  The two package variables \<open>InitCache\<close> sets, \<open>nil\<close> until then, and the functions it
  calls that are defined elsewhere, as parameters; the types of the two caches are left
  open. \<open>CacheIdentifiers\<close> queries the catalogue and writes the snapshot file, so it
  takes and returns the world.
\<close>

record ('ic, 'lc) globals =
  IDCache :: "'ic option"
  LineCache :: "'lc option"

record ('ic, 'lc) initialisers =
  NewLineImageCache :: "string \<Rightarrow> 'lc"
  CacheIdentifiers :: "string \<Rightarrow> world \<Rightarrow> (error + 'ic) \<times> world"
  LoadIdentifierCache :: "string \<Rightarrow> world \<Rightarrow> 'ic"

text \<open>
  \<^verbatim>\<open>
  cacheDir, isSet := os.LookupEnv("ARCHISCRIBE_CACHE")
  if !isSet { cacheDir = "./cache" }
  cacheDir, _ = filepath.Abs(cacheDir)
  \<close>
\<close>

definition cacheDirOf :: "world \<Rightarrow> string" where
  "cacheDirOf w =
     Abs (cwd w) (case environ w ''ARCHISCRIBE_CACHE'' of None \<Rightarrow> ''./cache'' | Some v \<Rightarrow> v)"

text \<open>
  The first part of \<open>InitCache\<close>, up to the cache directory being ready:
  \<^verbatim>\<open>
  dirStat, err := os.Stat(cacheDir)
  if os.IsNotExist(err) {
      os.MkdirAll(cacheDir, 0755)
  } else if !dirStat.IsDir() {
      log.Panicf("Cache directory '%s' is not a directory!", cacheDir)
  } else if err != nil {
      log.Panicf("Error setting up cache directory: %v", err)
  }
  \<close>
  On an error other than \<open>ENOENT\<close>, \<open>dirStat\<close> is \<open>nil\<close> and \<open>dirStat.IsDir()\<close> panics
  before the third test is reached. \<open>log.Panicf\<close> logs its message and panics with it.
\<close>

definition prepareCacheDir :: "world \<Rightarrow> exit \<times> world" where
  "prepareCacheDir w =
     (let cacheDir = cacheDirOf w
      in case Stat w cacheDir of
           Inl err \<Rightarrow>
             if err = ENOENT then (Returned, snd (MkdirAll w cacheDir))
             else (Panicked ''runtime error: invalid memory address or nil pointer dereference'', w)
         | Inr dirStat \<Rightarrow>
             if \<not> IsDir dirStat then
               (let msg = ''Cache directory '' @ [CHR 0x27] @ cacheDir @ [CHR 0x27] @ '' is not a directory!''
                in (Panicked msg, logPrint msg w))
             else (Returned, w))"

text \<open>
  \<^verbatim>\<open>
  LineCache = NewLineImageCache(cacheDir)
  idCacheFile := filepath.Join(cacheDir, "identifiers.json")
  if _, err := os.Stat(idCacheFile); err != nil {
      fmt.Println("Caching identifiers...")
      cache, err := CacheIdentifiers(idCacheFile)
      if err != nil { panic(err) }
      IDCache = cache
  } else {
      IDCache = LoadIdentifierCache(idCacheFile)
  }
  \<close>
\<close>

definition InitCache :: "('ic, 'lc) initialisers \<Rightarrow> world \<times> ('ic, 'lc) globals \<Rightarrow> exit \<times> world \<times> ('ic, 'lc) globals" where
  "InitCache d st =
     (case st of (w, g) \<Rightarrow>
        (case prepareCacheDir w of
           (Returned, w1) \<Rightarrow>
             (let cacheDir = cacheDirOf w;
                  g1 = g\<lparr>LineCache := Some (NewLineImageCache d cacheDir)\<rparr>;
                  idCacheFile = Join [cacheDir, ''identifiers.json'']
              in case Stat w1 idCacheFile of
                   Inl err \<Rightarrow>
                     (case CacheIdentifiers d idCacheFile
                             (w1\<lparr>printed := printed w1 @ [''Caching identifiers...'']\<rparr>) of
                        (Inl e, w2) \<Rightarrow> (Panicked (errorString e), w2, g1)
                      | (Inr cache, w2) \<Rightarrow> (Returned, w2, g1\<lparr>IDCache := Some cache\<rparr>))
                 | Inr info \<Rightarrow>
                     (Returned, w1, g1\<lparr>IDCache := Some (LoadIdentifierCache d idCacheFile w1)\<rparr>))
         | (stopped, w1) \<Rightarrow> (stopped, w1, g)))"

subsection \<open>The flag package\<close>

text \<open>
  The command line's flag set: every defined flag with its current value. \<open>flag.Bool\<close>
  and \<open>flag.String\<close> define a flag with its default value and return a pointer to the
  variable holding the value; the pointer is modelled by the flag's name and read with
  \<open>boolAt\<close> and \<open>stringAt\<close>.
\<close>

datatype flagValue = BoolValue bool | StringValue string

type_synonym FlagSet = "(string \<times> flagValue) list"

definition flagBool :: "string \<Rightarrow> bool \<Rightarrow> FlagSet \<Rightarrow> FlagSet" where
  "flagBool name val fl = AList.update name (BoolValue val) fl"

definition flagString :: "string \<Rightarrow> string \<Rightarrow> FlagSet \<Rightarrow> FlagSet" where
  "flagString name val fl = AList.update name (StringValue val) fl"

definition boolAt :: "FlagSet \<Rightarrow> string \<Rightarrow> bool" where
  "boolAt fl name = (case map_of fl name of Some (BoolValue b) \<Rightarrow> b | _ \<Rightarrow> False)"

definition stringAt :: "FlagSet \<Rightarrow> string \<Rightarrow> string" where
  "stringAt fl name = (case map_of fl name of Some (StringValue s) \<Rightarrow> s | _ \<Rightarrow> [])"

definition ParseBool :: "string \<Rightarrow> bool option" where
  "ParseBool s =
     (if s \<in> set [''1'', ''t'', ''T'', ''TRUE'', ''true'', ''True''] then Some True
      else if s \<in> set [''0'', ''f'', ''F'', ''FALSE'', ''false'', ''False''] then Some False
      else None)"

text \<open>
  \<open>flag.Parse\<close> over the arguments after the program name: \<open>-name\<close>, \<open>--name\<close>,
  \<open>-name=value\<close>, and \<open>-name value\<close> for a flag that is not boolean; parsing stops at
  \<open>--\<close> and at the first argument that is not a flag. The result is the error the
  command line's flag set exits on, or the flag set with the values set. An undefined
  \<open>-h\<close> or \<open>-help\<close> gives \<open>flag.ErrHelp\<close>, whose message is \<open>flag: help requested\<close>.
\<close>

fun flagParse :: "FlagSet \<Rightarrow> string list \<Rightarrow> error + FlagSet" where
  "flagParse fl [] = Inr fl"
| "flagParse fl (s # args) =
     (if length s < 2 \<or> hd s \<noteq> CHR ''-'' then Inr fl
      else if s = ''--'' then Inr fl
      else
        (let rest = (if s ! 1 = CHR ''-'' then drop 2 s else drop 1 s);
             name = takeWhile (\<lambda>ch. ch \<noteq> CHR ''='') rest;
             hasValue = (CHR ''='' \<in> set rest);
             val = drop 1 (dropWhile (\<lambda>ch. ch \<noteq> CHR ''='') rest)
         in if rest = [] \<or> hd rest = CHR ''-'' \<or> hd rest = CHR ''='' then
              Inl (Err (''bad flag syntax: '' @ s))
            else
              (case map_of fl name of
                 None \<Rightarrow>
                   if name = ''help'' \<or> name = ''h'' then Inl (Err ''flag: help requested'')
                   else Inl (Err (''flag provided but not defined: -'' @ name))
               | Some (BoolValue b) \<Rightarrow>
                   if hasValue then
                     (case ParseBool val of
                        None \<Rightarrow> Inl (Err (''invalid boolean value for -'' @ name))
                      | Some b' \<Rightarrow> flagParse (AList.update name (BoolValue b') fl) args)
                   else flagParse (AList.update name (BoolValue True) fl) args
               | Some (StringValue v) \<Rightarrow>
                   if hasValue then flagParse (AList.update name (StringValue val) fl) args
                   else
                     (case args of
                        [] \<Rightarrow> Inl (Err (''flag needs an argument: -'' @ name))
                      | a # args' \<Rightarrow> flagParse (AList.update name (StringValue a) fl) args'))))"

subsection \<open>main\<close>

text \<open>
  \<^verbatim>\<open>
  func main() {
      var isDebug = flag.Bool("debug", false, "Enable debug mode")
      var repoPath = flag.String("repoPath", "", "Set repository path")
      if *repoPath == "" { panic("repoPath must be set!") }
      flag.Parse()
      lib.InitCache()
      if *isDebug { web.Serve(8083, *repoPath) } else { web.Serve(8080, *repoPath) }
  }
  \<close>
  \<open>args\<close> are the command line's arguments after the program name; \<open>Serve\<close> is
  \<open>web.Serve\<close>, a parameter. A flag error makes \<open>flag.Parse\<close> exit with status 2,
  and \<open>flag.ErrHelp\<close> with status 0.
\<close>

definition main :: "('ic, 'lc) initialisers \<Rightarrow> (int \<Rightarrow> string \<Rightarrow> world \<times> ('ic, 'lc) globals \<Rightarrow> exit \<times> world \<times> ('ic, 'lc) globals) \<Rightarrow> string list \<Rightarrow> world \<times> ('ic, 'lc) globals \<Rightarrow> exit \<times> world \<times> ('ic, 'lc) globals" where
  "main d Serve args st =
     (let fl1 = flagBool ''debug'' False [];
          isDebug = ''debug'';
          fl2 = flagString ''repoPath'' [] fl1;
          repoPath = ''repoPath''
      in if stringAt fl2 repoPath = [] then (Panicked ''repoPath must be set!'', st)
         else
           (case flagParse fl2 args of
              Inl err \<Rightarrow>
                if err = Err ''flag: help requested'' then (Exited 0, st) else (Exited 2, st)
            | Inr fl3 \<Rightarrow>
                (case InitCache d st of
                   (Returned, st') \<Rightarrow>
                     if boolAt fl3 isDebug then Serve 8083 (stringAt fl3 repoPath) st'
                     else Serve 8080 (stringAt fl3 repoPath) st'
                 | (stopped, st') \<Rightarrow> (stopped, st'))))"


section \<open>The identifier index\<close>

text \<open>
  Modelled from the spec: the identifier index (the type of \<open>IDCache\<close> with its
  \<open>Random\<close> method, and the function that builds it, are not among the sources). The
  index maps a year to the entries indexed for it.
\<close>

type_synonym IdentifierIndex = "int \<Rightarrow> IdentifierEntry list"

text \<open>
  Modelled from the spec: \<open>Build\<close> partitions the results of the catalogue query by
  year (the query itself is the list of entries it returned).
\<close>

definition Build :: "IdentifierEntry list \<Rightarrow> IdentifierIndex" where
  "Build catalog = (\<lambda>year. filter (\<lambda>e. Year e = year) catalog)"

text \<open>
  Modelled from the spec: \<open>Random(year)\<close> returns a random entry among those indexed
  for the year, or \<open>NoCandidatesError\<close>; \<open>r\<close> is the random number drawn.
\<close>

definition indexRandom :: "IdentifierIndex \<Rightarrow> nat \<Rightarrow> int \<Rightarrow> error + IdentifierEntry" where
  "indexRandom index r year =
     (case index year of
        [] \<Rightarrow> Inl (Err ''NoCandidatesError'')
      | e # es \<Rightarrow> Inr ((e # es) ! (r mod length (e # es))))"


section \<open>Concrete inputs\<close>

text \<open>
  A cache root \<open>/cache\<close> with two year directories: 1850 holds two cached files, 1860
  none.
\<close>

definition cacheWorld :: world where
  "cacheWorld =
     \<lparr>root = Dir [(''cache'',
               Dir [(''1850'', Dir [(''a.json'', File ''[]''), (''b.json'', File ''[]'')]),
                    (''1860'', Dir [])])],
      cwd = ''/'', environ = Map.empty, logged = [], printed = [], clock = 0\<rparr>"

text \<open>A cache root \<open>/cache\<close> whose year directories 1850 and 1860 are both empty.\<close>

definition emptyYears :: world where
  "emptyYears =
     \<lparr>root = Dir [(''cache'', Dir [(''1850'', Dir []), (''1860'', Dir [])])],
      cwd = ''/'', environ = Map.empty, logged = [], printed = [], clock = 0\<rparr>"

definition sampleLine :: OCRLine where
  "sampleLine =
     \<lparr>ImageURL = ''img'', PreviousImageURL = [], NextImageURL = [], Transcription = []\<rparr>"

text \<open>A stand-in for \<open>json.Marshal\<close>: the image URLs between brackets.\<close>

definition toyMarshal :: "OCRLine list \<Rightarrow> string" where
  "toyMarshal lines = ''['' @ joinWith '','' (map ImageURL lines) @ '']''"

text \<open>
  Collaborators that never fail: draw \<open>k\<close> gives the identifier \<open>doc\<close>\<open>k\<close>, every
  document is Fraktur, every fetch reports progress once and delivers one line.
\<close>

definition steady :: collaborators where
  "steady =
     \<lparr>Random = (\<lambda>k year. \<lparr>Identifier = ''doc'' @ Itoa (int k), Year = year\<rparr>),
      IsFraktur = (\<lambda>k ident. (True, None)),
      FetchLines = (\<lambda>k ident. Inr [FromProgChan None, FromLineChan [sampleLine]]),
      Marshal = toyMarshal\<rparr>"

text \<open>
  Collaborators that fail three times: draw 0 is not Fraktur, the fetch of draw 1 returns
  an error, the fetch of draw 2 reports an error on its progress channel; from draw 3 on
  they are as \<open>steady\<close>.
\<close>

definition flaky :: collaborators where
  "flaky =
     \<lparr>Random = (\<lambda>k year. \<lparr>Identifier = ''doc'' @ Itoa (int k), Year = year\<rparr>),
      IsFraktur = (\<lambda>k ident. (k \<noteq> 0, None)),
      FetchLines = (\<lambda>k ident.
         if k = 1 then Inl (Err ''timeout'')
         else if k = 2 then Inr [FromProgChan None, FromProgChan (Some (Err ''reset''))]
         else Inr [FromProgChan None, FromLineChan [sampleLine]]),
      Marshal = toyMarshal\<rparr>"

text \<open>Collaborators for which no document is ever Fraktur.\<close>

definition noFraktur :: collaborators where
  "noFraktur =
     \<lparr>Random = (\<lambda>k year. \<lparr>Identifier = ''doc'' @ Itoa (int k), Year = year\<rparr>),
      IsFraktur = (\<lambda>k ident. (False, None)),
      FetchLines = (\<lambda>k ident. Inr [FromLineChan [sampleLine]]),
      Marshal = toyMarshal\<rparr>"




text \<open>
  More worlds: one where the override variable names a directory that does not exist
  yet, one where it names a regular file, one where it names a path below a regular
  file, and one with an empty file system, no override and the working directory
  \<open>/srv\<close>.
\<close>

definition overrideWorld :: world where
  "overrideWorld = cacheWorld\<lparr>environ := [''ARCHISCRIBE_CACHE'' \<mapsto> ''/srv/data/cache'']\<rparr>"




text \<open>A catalogue of three entries over two years.\<close>

definition sampleCatalog :: "IdentifierEntry list" where
  "sampleCatalog =
     [\<lparr>Identifier = ''a'', Year = 1850\<rparr>, \<lparr>Identifier = ''b'', Year = 1860\<rparr>,
      \<lparr>Identifier = ''c'', Year = 1850\<rparr>]"


section \<open>Properties of ProgressReader\<close>

lemma int64_id: "in_int64 x \<Longrightarrow> int64 x = x"
  by (simp add: int64_def in_int64_def)

lemma int64_add_left: "int64 (int64 a + b) = int64 (a + b)"
proof -
  have "int64 a + b + 2 ^ 63 = (a + 2 ^ 63) mod 2 ^ 64 + b"
    by (simp add: int64_def)
  then have "(int64 a + b + 2 ^ 63) mod 2 ^ 64 = ((a + 2 ^ 63) + b) mod 2 ^ 64"
    by (simp only: mod_add_left_eq)
  also have "(a + 2 ^ 63) + b = a + b + 2 ^ 63"
    by simp
  finally show ?thesis
    by (simp only: int64_def)
qed

lemma int64_add_right: "int64 (a + int64 b) = int64 (a + b)"
  by (metis int64_add_left add.commute)

lemma int64_idem: "int64 (int64 x) = int64 x"
  using int64_add_left [of x 0] by simp

lemma in_int64_int64: "in_int64 (int64 x)"
proof -
  have "0 \<le> (x + 2 ^ 63) mod 2 ^ 64" "(x + 2 ^ 63) mod 2 ^ 64 < (2 ^ 64 :: int)"
    by simp_all
  then show ?thesis
    by (simp add: in_int64_def int64_def)
qed

lemma Read_result: "fst (Read rd r lenp) = fst (rd (proxiedReader r) lenp)"
  by (simp add: Read_def split: prod.splits)

lemma Read_BytesRead:
  "BytesRead (snd (Read rd r lenp)) =
     int64 (BytesRead r + credited (lenp, fst (rd (proxiedReader r) lenp)))"
  by (simp add: Read_def credited_def int64_add_right split: prod.splits)

lemma Read_in_int64: "in_int64 (BytesRead (snd (Read rd r lenp)))"
  by (simp add: Read_BytesRead in_int64_int64)

lemma credited_nonneg: "0 \<le> credited c"
  by (simp add: credited_def split: prod.splits)

lemma readToEnd_length: "readToEnd rd r lens = (res, r') \<Longrightarrow> length res \<le> length lens"
proof (induction lens arbitrary: r res r')
  case Nil
  then show ?case by simp
next
  case (Cons l ls)
  then show ?case
    by (fastforce split: prod.splits option.splits)
qed

lemma readToEnd_credit:
  "readToEnd rd r lens = (res, r') \<Longrightarrow>
     int64 (BytesRead r') = int64 (BytesRead r + sum_list (map credited (zip lens res)))"
proof (induction lens arbitrary: r res r')
  case Nil
  then show ?case by simp
next
  case (Cons l ls)
  obtain n err r1 where rd1: "Read rd r l = ((n, err), r1)"
    by (metis prod.exhaust)
  then have b1: "BytesRead r1 = int64 (BytesRead r + credited (l, (n, err)))"
    using Read_BytesRead [of rd r l] Read_result [of rd r l] by simp
  show ?case
  proof (cases err)
    case None
    obtain res2 r2 where rest: "readToEnd rd r1 ls = (res2, r2)"
      by (metis prod.exhaust)
    with Cons.prems rd1 None have eqs: "res = (n, err) # res2" "r' = r2"
      by simp_all
    from Cons.IH [OF rest]
    have "int64 (BytesRead r2) = int64 (BytesRead r1 + sum_list (map credited (zip ls res2)))" .
    then show ?thesis
      using b1 eqs by (simp add: int64_add_left add.assoc)
  next
    case (Some e)
    with Cons.prems rd1 have "res = [(n, err)]" "r' = r1"
      by simp_all
    then show ?thesis using b1 by (simp add: int64_idem)
  qed
qed

lemma credited_sum:
  "res \<noteq> [] \<Longrightarrow> length res \<le> length lens \<Longrightarrow> \<forall>c \<in> set (butlast res). fst c > 0 \<Longrightarrow>
     sum_list (map credited (zip lens res)) =
       sum_list (map fst (butlast res)) + credited (lens ! (length res - 1), last res)"
proof (induction res arbitrary: lens)
  case Nil
  then show ?case by simp
next
  case (Cons c cs)
  then obtain l ls where lens: "lens = l # ls"
    by (cases lens) auto
  show ?case
  proof (cases "cs = []")
    case True
    then show ?thesis using lens by simp
  next
    case False
    with Cons.prems lens have ih: "sum_list (map credited (zip ls cs)) =
       sum_list (map fst (butlast cs)) + credited (ls ! (length cs - 1), last cs)"
      by (intro Cons.IH) auto
    from False Cons.prems have "fst c > 0" by simp
    then have "credited (l, c) = fst c"
      by (cases c) (auto simp: credited_def)
    with ih False lens show ?thesis
      by (cases cs) auto
  qed
qed

lemma readToEnd_in_int64:
  "readToEnd rd r lens = (res, r') \<Longrightarrow> in_int64 (BytesRead r) \<Longrightarrow> in_int64 (BytesRead r')"
proof (induction lens arbitrary: r res r')
  case Nil
  then show ?case by simp
next
  case (Cons l ls)
  obtain n err r1 where rd1: "Read rd r l = ((n, err), r1)"
    by (metis prod.exhaust)
  then have r1: "in_int64 (BytesRead r1)"
    using Read_in_int64 [of rd r l] by simp
  show ?case
  proof (cases err)
    case None
    with Cons.prems rd1 obtain res2 where "readToEnd rd r1 ls = (res2, r')"
      by (auto split: prod.splits)
    then show ?thesis using r1 by (rule Cons.IH)
  next
    case (Some e)
    with Cons.prems rd1 r1 show ?thesis by simp
  qed
qed


text \<open>
  C3 (as amended). A stream of total length \<open>L\<close> is read to exhaustion through a fresh
  ProgressReader: the calls return \<open>res\<close>, the last of them with \<open>io.EOF\<close>, and no call
  before the last returns zero bytes. Then \<open>BytesRead\<close> ends at \<open>L\<close> when the last call
  itself returned bytes, and at \<open>L\<close> plus the length of the buffer passed to the last
  call when that call returned zero bytes: \<open>Read\<close> credits a zero-byte read with the
  whole buffer.
\<close>

theorem readToEnd_BytesRead:
  assumes run: "readToEnd rd (NewProgressReader s) lens = (res, r')"
    and ne: "res \<noteq> []"
    and eof: "snd (last res) = Some EOF"
    and pos: "\<forall>c \<in> set (butlast res). fst c > 0"
    and last0: "0 \<le> fst (last res)"
    and L: "L = sum_list (map fst res)"
    and bound: "L + int (lens ! (length res - 1)) < 2 ^ 63"
  shows "BytesRead r' =
           L + (if fst (last res) > 0 then 0 else int (lens ! (length res - 1)))"
proof -
  let ?k = "lens ! (length res - 1)"
  have len: "length res \<le> length lens"
    using run by (rule readToEnd_length)
  have Lsplit: "L = sum_list (map fst (butlast res)) + fst (last res)"
    using ne L by (induction res arbitrary: L) auto
  have nn: "0 \<le> sum_list (map fst (butlast res))"
    using pos by (intro sum_list_nonneg) auto
  have cr: "credited (?k, last res) = fst (last res) + (if fst (last res) > 0 then 0 else int ?k)"
    using last0 by (cases "last res") (auto simp: credited_def)
  have total: "sum_list (map credited (zip lens res)) =
                 L + (if fst (last res) > 0 then 0 else int ?k)"
    using credited_sum [OF ne len pos] Lsplit cr by simp
  have "int64 (BytesRead r') = int64 (L + (if fst (last res) > 0 then 0 else int ?k))"
    using readToEnd_credit [OF run] total by (simp add: NewProgressReader_def)
  moreover have "in_int64 (BytesRead r')"
    using readToEnd_in_int64 [OF run] by (simp add: NewProgressReader_def in_int64_def)
  moreover have "in_int64 (L + (if fst (last res) > 0 then 0 else int ?k))"
    using bound Lsplit nn last0 by (auto simp: in_int64_def)
  ultimately show ?thesis
    by (simp add: int64_id)
qed

theorem readToEnd_BytesRead_witness:
  "readToEnd bytesReader (NewProgressReader 3) [2, 2, 2] =
     ([(2, None), (1, None), (0, Some EOF)], \<lparr>proxiedReader = 0, BytesRead = 3 + 2\<rparr>)"
proof -
  let ?res = "[(2, None), (1, None), (0, Some EOF)] :: (int \<times> error option) list"
  have run: "readToEnd bytesReader (NewProgressReader 3) [2, 2, 2] =
      (?res, \<lparr>proxiedReader = 0, BytesRead = 5\<rparr>)"
    by (simp add: Read_def bytesReader_def int64_def NewProgressReader_def)
  have "BytesRead \<lparr>proxiedReader = 0::nat, BytesRead = 5\<rparr> =
      3 + (if fst (last ?res) > 0 then 0 else int ([2, 2, 2] ! (length ?res - 1)))"
    by (rule readToEnd_BytesRead [OF run]) simp_all
  with run show ?thesis by simp
qed

text \<open>
  The claim as stated fails on the usual end of a stream: three bytes read with buffers
  of four end with \<open>BytesRead = 7\<close>, since the final \<open>(0, io.EOF)\<close> is credited with
  the four bytes of the buffer.
\<close>

theorem readToEnd_terminal_counterexample:
  "readToEnd bytesReader (NewProgressReader 3) [4, 4] =
     ([(3, None), (0, Some EOF)], \<lparr>proxiedReader = 0, BytesRead = 7\<rparr>)"
  by (simp add: Read_def bytesReader_def int64_def NewProgressReader_def)

text \<open>
  C10 (as amended). Every call of \<open>Read\<close> returns exactly the byte count and the error of
  the wrapped reader, and adds a non-negative amount to \<open>BytesRead\<close>; as long as the sum
  stays below \<open>2^63\<close>, \<open>BytesRead\<close> does not decrease.
\<close>

theorem Read_monotone_passthrough:
  assumes rng: "in_int64 (BytesRead r)"
    and nofl: "BytesRead r + credited (lenp, fst (rd (proxiedReader r) lenp)) < 2 ^ 63"
  shows "fst (Read rd r lenp) = fst (rd (proxiedReader r) lenp) \<and>
         BytesRead r \<le> BytesRead (snd (Read rd r lenp)) \<and>
         BytesRead (snd (Read rd r lenp)) =
           BytesRead r + credited (lenp, fst (rd (proxiedReader r) lenp))"
proof -
  let ?c = "credited (lenp, fst (rd (proxiedReader r) lenp))"
  have "0 \<le> ?c" by (rule credited_nonneg)
  with rng nofl have "in_int64 (BytesRead r + ?c)"
    by (simp add: in_int64_def)
  then have "BytesRead (snd (Read rd r lenp)) = BytesRead r + ?c"
    by (simp add: Read_BytesRead int64_id)
  with \<open>0 \<le> ?c\<close> show ?thesis
    by (simp add: Read_result)
qed

theorem Read_monotone_passthrough_witness:
  "fst (Read bytesReader (NewProgressReader 5) 4) = (4, None) \<and>
   BytesRead (NewProgressReader (5::nat)) \<le> BytesRead (snd (Read bytesReader (NewProgressReader 5) 4)) \<and>
   BytesRead (snd (Read bytesReader (NewProgressReader 5) 4)) = 4"
  using Read_monotone_passthrough [of "NewProgressReader (5::nat)" 4 bytesReader]
  by (simp add: NewProgressReader_def bytesReader_def credited_def in_int64_def)

text \<open>
  At the end of the \<open>int64\<close> range the addition wraps and \<open>BytesRead\<close> drops: one byte
  read with \<open>BytesRead = 2^63 - 1\<close> leaves \<open>-2^63\<close>.
\<close>

theorem Read_overflow_counterexample:
  "BytesRead (snd (Read bytesReader \<lparr>proxiedReader = 1, BytesRead = 2 ^ 63 - 1\<rparr> 1))
     < BytesRead \<lparr>proxiedReader = 1::nat, BytesRead = 2 ^ 63 - 1\<rparr>"
  by (simp add: Read_def bytesReader_def int64_def)


section \<open>Properties of the file system\<close>

lemma WriteFile_failed:
  "fst (WriteFile w p content) = Some e \<Longrightarrow> snd (WriteFile w p content) = w"
  by (auto simp: WriteFile_def split: sum.splits node.splits)

lemma map_of_update_same: "map_of (AList.update k v al) k = Some v"
  by (simp add: update_conv')

lemma putNode_lookup:
  "putNode n cs new = Inr n' \<Longrightarrow> lookupNode n' cs = Inr new"
proof (induction n cs new arbitrary: n' rule: putNode.induct)
  case (1 n new)
  then show ?case by simp
next
  case (2 d c cs new)
  then show ?case by simp
next
  case (3 es c cs new)
  show ?case
  proof (cases "map_of es c")
    case None
    with 3 show ?thesis
      by (auto simp: map_add_def split: if_splits)
  next
    case (Some n)
    with 3 show ?thesis
      by (auto simp: map_of_update_same split: sum.splits)
  qed
qed

lemma WriteFile_written:
  "fst (WriteFile w p content) = None \<Longrightarrow>
     lookupNode (root (snd (WriteFile w p content))) (resolve (snd (WriteFile w p content)) p) =
       Inr (File content)"
  by (auto simp: WriteFile_def resolve_def putNode_lookup split: sum.splits node.splits)

lemma WriteFile_frame:
  "cwd (snd (WriteFile w p content)) = cwd w \<and>
   logged (snd (WriteFile w p content)) = logged w \<and>
   clock (snd (WriteFile w p content)) = clock w"
  by (auto simp: WriteFile_def split: sum.splits node.splits)

section \<open>Properties of the cache filler\<close>

lemma selectLoop_lines:
  "fetchOutcome received = Some (Inr lines) \<Longrightarrow>
     selectLoop c yearPath ident received w =
       Return (Join [yearPath, ident @ ''.json''])
         (snd (WriteFile w (Join [yearPath, ident @ ''.json'']) (Marshal c lines)))"
  by (induction received rule: fetchOutcome.induct) (simp_all add: Let_def)


lemma selectLoop_blocked:
  "fetchOutcome received = None \<Longrightarrow> selectLoop c yearPath ident received w = Blocked"
  by (induction received rule: fetchOutcome.induct) simp_all

lemma CacheLines_Continue:
  "fillAttempt c cachePath year printProgress w = Continue w' \<Longrightarrow>
     CacheLines c cachePath year printProgress w = CacheLines c cachePath year printProgress w'"
  by (subst CacheLines.simps) simp

lemma CacheLines_Return:
  "fillAttempt c cachePath year printProgress w = Return filePath w' \<Longrightarrow>
     CacheLines c cachePath year printProgress w = Some (filePath, w')"
  by (subst CacheLines.simps) simp

lemma CacheLines_Blocked:
  "fillAttempt c cachePath year printProgress w = Blocked \<Longrightarrow>
     CacheLines c cachePath year printProgress w = None"
  by (subst CacheLines.simps) simp

lemma CacheLines_never_returns:
  assumes "\<And>v. \<exists>v'. fillAttempt c cachePath year printProgress v = Continue v'"
  shows "CacheLines c cachePath year printProgress w = None"
proof (rule ccontr)
  assume "CacheLines c cachePath year printProgress w \<noteq> None"
  then obtain r where some: "CacheLines c cachePath year printProgress w = Some r"
    by auto
  have "\<not> (\<forall>v. \<exists>v'. fillAttempt c cachePath year printProgress v = Continue v')"
  proof (rule CacheLines.raw_induct
      [where P = "\<lambda>c cp y pp w r. \<not> (\<forall>v. \<exists>v'. fillAttempt c cp y pp v = Continue v')", OF _ some])
    fix CL c cp y pp w r
    assume IH: "\<And>c cp y pp w r. CL c cp y pp w = Some r \<Longrightarrow>
        \<not> (\<forall>v. \<exists>v'. fillAttempt c cp y pp v = Continue v')"
      and eq: "(case fillAttempt c cp y pp w of
           Continue w' \<Rightarrow> CL c cp y pp w'
         | Return filePath w' \<Rightarrow> Some (filePath, w')
         | Blocked \<Rightarrow> None) = Some r"
    show "\<not> (\<forall>v. \<exists>v'. fillAttempt c cp y pp v = Continue v')"
    proof
      assume all: "\<forall>v. \<exists>v'. fillAttempt c cp y pp v = Continue v'"
      then obtain w' where "fillAttempt c cp y pp w = Continue w'"
        by blast
      with eq have "CL c cp y pp w' = Some r"
        by simp
      from IH [OF this] all show False by blast
    qed
  qed
  with assms show False by blast
qed

lemma fillAttempt_mismatch:
  "\<not> fst (IsFraktur c (clock w) (drawn c year w)) \<Longrightarrow>
     fillAttempt c cachePath year printProgress w = Continue (w\<lparr>clock := Suc (clock w)\<rparr>)"
  by (simp add: fillAttempt_def drawn_def Let_def)

lemma fillAttempt_fetch_error:
  "fst (IsFraktur c (clock w) (drawn c year w)) \<Longrightarrow>
   FetchLines c (clock w) (drawn c year w) = Inl err \<Longrightarrow>
     fillAttempt c cachePath year printProgress w =
       Continue (logPrint (''Error while getting OCR for '' @ drawn c year w @ '': '' @ errorString err)
                   (w\<lparr>clock := Suc (clock w)\<rparr>))"
  by (simp add: fillAttempt_def drawn_def Let_def)

lemma fillAttempt_fetched:
  "fst (IsFraktur c (clock w) (drawn c year w)) \<Longrightarrow>
   FetchLines c (clock w) (drawn c year w) = Inr received \<Longrightarrow>
     fillAttempt c cachePath year printProgress w =
       selectLoop c (Join [cachePath, Itoa year]) (drawn c year w) received (fetching c year w)"
  by (simp add: fillAttempt_def drawn_def fetching_def Let_def)

text \<open>The concrete runs, evaluated step by step.\<close>

lemmas path_eval = Join_def Clean_def IsAbs_def Abs_def Itoa_def digitsOf.simps digitChar_def
  resolve_def Ext_def

lemma steady_path: "cacheFilePath steady ''/cache'' 1860 cacheWorld = ''/cache/1860/doc0.json''"
  by (simp add: cacheFilePath_def drawn_def steady_def cacheWorld_def path_eval)

lemma steady_fetching:
  "fetching steady 1860 cacheWorld =
     cacheWorld\<lparr>logged := [''Caching lines for 1860 from doc0''], clock := Suc 0\<rparr>"
  by (simp add: fetching_def drawn_def steady_def cacheWorld_def logPrint_def path_eval)

lemma steady_write:
  "WriteFile (cacheWorld\<lparr>logged := [''Caching lines for 1860 from doc0''], clock := Suc 0\<rparr>)
      ''/cache/1860/doc0.json'' ''[img]'' =
     (None, cacheWorld\<lparr>root := Dir [(''cache'',
               Dir [(''1850'', Dir [(''a.json'', File ''[]''), (''b.json'', File ''[]'')]),
                    (''1860'', Dir [(''doc0.json'', File ''[img]'')])])],
         logged := [''Caching lines for 1860 from doc0''], clock := Suc 0\<rparr>)"
  by (simp add: WriteFile_def cacheWorld_def path_eval)

lemma flaky_pass0:
  "fillAttempt flaky ''/cache'' 1860 True cacheWorld = Continue (cacheWorld\<lparr>clock := Suc 0\<rparr>)"
proof -
  have "\<not> fst (IsFraktur flaky (clock cacheWorld) (drawn flaky 1860 cacheWorld))"
    by (simp add: flaky_def cacheWorld_def)
  from fillAttempt_mismatch [OF this] show ?thesis
    by (simp add: cacheWorld_def)
qed

lemma flaky_pass1:
  "fillAttempt flaky ''/cache'' 1860 True (cacheWorld\<lparr>clock := Suc 0\<rparr>) =
     Continue (cacheWorld\<lparr>logged := [''Error while getting OCR for doc1: timeout''], clock := 2\<rparr>)"
proof -
  let ?w = "cacheWorld\<lparr>clock := Suc 0\<rparr>"
  have d: "drawn flaky 1860 ?w = ''doc1''"
    by (simp add: drawn_def flaky_def path_eval)
  have "fst (IsFraktur flaky (clock ?w) (drawn flaky 1860 ?w))"
    by (simp add: flaky_def)
  moreover have "FetchLines flaky (clock ?w) (drawn flaky 1860 ?w) = Inl (Err ''timeout'')"
    by (simp add: flaky_def)
  ultimately have "fillAttempt flaky ''/cache'' 1860 True ?w =
      Continue (logPrint (''Error while getting OCR for '' @ drawn flaky 1860 ?w @ '': '' @ errorString (Err ''timeout''))
                   (?w\<lparr>clock := Suc (clock ?w)\<rparr>))"
    by (rule fillAttempt_fetch_error)
  then show ?thesis
    unfolding d by (simp add: logPrint_def cacheWorld_def)
qed

lemma CacheLines_returns_after_failures:
  assumes "CacheLines c cachePath year printProgress w = Some r"
  shows "\<exists>n. afterFailures c cachePath year printProgress n w = None"
proof (rule CacheLines.raw_induct
    [where P = "\<lambda>c cp y pp w r. \<exists>n. afterFailures c cp y pp n w = None", OF _ assms])
  fix CL c cp y pp w r
  assume IH: "\<And>c cp y pp w r. CL c cp y pp w = Some r \<Longrightarrow>
      \<exists>n. afterFailures c cp y pp n w = None"
    and eq: "(case fillAttempt c cp y pp w of
         Continue w' \<Rightarrow> CL c cp y pp w'
       | Return filePath w' \<Rightarrow> Some (filePath, w')
       | Blocked \<Rightarrow> None) = Some r"
  show "\<exists>n. afterFailures c cp y pp n w = None"
  proof (cases "fillAttempt c cp y pp w")
    case (Continue w')
    with eq have "CL c cp y pp w' = Some r"
      by simp
    from IH [OF this] obtain n where "afterFailures c cp y pp n w' = None"
      by blast
    with Continue have "afterFailures c cp y pp (Suc n) w = None"
      by simp
    then show ?thesis by blast
  next
    case (Return filePath w')
    then have "afterFailures c cp y pp (Suc 0) w = None"
      by simp
    then show ?thesis by blast
  next
    case Blocked
    with eq show ?thesis by simp
  qed
qed

lemma noFraktur_afterFailures:
  "afterFailures noFraktur cachePath year printProgress n w = Some (w\<lparr>clock := clock w + n\<rparr>)"
proof (induction n arbitrary: w)
  case 0
  then show ?case by simp
next
  case (Suc n)
  have "\<not> fst (IsFraktur noFraktur (clock w) (drawn noFraktur year w))"
    by (simp add: noFraktur_def)
  then have "fillAttempt noFraktur cachePath year printProgress w = Continue (w\<lparr>clock := Suc (clock w)\<rparr>)"
    by (rule fillAttempt_mismatch)
  then show ?case
    using Suc.IH [of "w\<lparr>clock := Suc (clock w)\<rparr>"] by simp
qed

text \<open>
  C2 (as amended). \<open>CacheLines\<close> has no retry budget and no terminal error: after any
  number \<open>n\<close> of passes that failed one after the other it goes on as it would from the
  world they left, and when every pass fails it never returns (whether every pass from
  any world fails, or every pass of the run from \<open>w\<close>).
\<close>

theorem CacheLines_no_retry_budget:
  "(afterFailures c cachePath year printProgress n w = Some w' \<longrightarrow>
      CacheLines c cachePath year printProgress w = CacheLines c cachePath year printProgress w') \<and>
   ((\<forall>v. \<exists>v'. fillAttempt c cachePath year printProgress v = Continue v') \<longrightarrow>
      CacheLines c cachePath year printProgress w = None) \<and>
   ((\<forall>k. \<exists>v. afterFailures c cachePath year printProgress k w = Some v) \<longrightarrow>
      CacheLines c cachePath year printProgress w = None)"
proof (intro conjI impI)
  assume "afterFailures c cachePath year printProgress n w = Some w'"
  then show "CacheLines c cachePath year printProgress w = CacheLines c cachePath year printProgress w'"
  proof (induction n arbitrary: w)
    case 0
    then show ?case by simp
  next
    case (Suc n)
    then obtain w1 where a: "fillAttempt c cachePath year printProgress w = Continue w1"
      and b: "afterFailures c cachePath year printProgress n w1 = Some w'"
      by (auto split: pass.splits)
    from CacheLines_Continue [OF a] Suc.IH [OF b] show ?case by simp
  qed
next
  assume "\<forall>v. \<exists>v'. fillAttempt c cachePath year printProgress v = Continue v'"
  then show "CacheLines c cachePath year printProgress w = None"
    by (intro CacheLines_never_returns) blast
next
  assume all: "\<forall>k. \<exists>v. afterFailures c cachePath year printProgress k w = Some v"
  show "CacheLines c cachePath year printProgress w = None"
  proof (rule ccontr)
    assume "CacheLines c cachePath year printProgress w \<noteq> None"
    then obtain r where "CacheLines c cachePath year printProgress w = Some r"
      by auto
    then obtain k where "afterFailures c cachePath year printProgress k w = None"
      using CacheLines_returns_after_failures by blast
    with all show False by (metis option.distinct(1))
  qed
qed

theorem CacheLines_no_retry_budget_witness:
  "CacheLines flaky ''/cache'' 1860 True cacheWorld =
     CacheLines flaky ''/cache'' 1860 True
       (cacheWorld\<lparr>logged := [''Error while getting OCR for doc1: timeout''], clock := 2\<rparr>) \<and>
   CacheLines noFraktur ''/cache'' 1860 True emptyYears = None \<and>
   CacheLines noFraktur ''/cache'' 1850 True emptyYears = None"
proof -
  have "afterFailures flaky ''/cache'' 1860 True (Suc (Suc 0)) cacheWorld =
      Some (cacheWorld\<lparr>logged := [''Error while getting OCR for doc1: timeout''], clock := 2\<rparr>)"
    by (simp add: flaky_pass0 flaky_pass1)
  moreover have "\<forall>v. \<exists>v'. fillAttempt noFraktur ''/cache'' 1860 True v = Continue v'"
    by (simp add: fillAttempt_mismatch noFraktur_def)
  moreover have "\<forall>k. \<exists>v. afterFailures noFraktur ''/cache'' 1850 True k emptyYears = Some v"
    by (simp add: noFraktur_afterFailures)
  ultimately show ?thesis
    using CacheLines_no_retry_budget [of flaky "''/cache''" 1860 True "Suc (Suc 0)" cacheWorld
        "cacheWorld\<lparr>logged := [''Error while getting OCR for doc1: timeout''], clock := 2\<rparr>"]
      CacheLines_no_retry_budget [of noFraktur "''/cache''" 1860 True 0 emptyYears emptyYears]
      CacheLines_no_retry_budget [of noFraktur "''/cache''" 1850 True 0 emptyYears emptyYears]
    by blast
qed

text \<open>
  The claim as stated fails: when no document of the year is Fraktur, the call does not
  return a terminal error; it does not return at all.
\<close>

theorem CacheLines_never_returns_counterexample:
  "CacheLines noFraktur ''/cache'' 1850 True cacheWorld = None"
proof (rule CacheLines_never_returns)
  fix v
  have "\<not> fst (IsFraktur noFraktur (clock v) (drawn noFraktur 1850 v))"
    by (simp add: noFraktur_def)
  then show "\<exists>v'. fillAttempt noFraktur ''/cache'' 1850 True v = Continue v'"
    by (simp add: fillAttempt_mismatch)
qed



text \<open>
  C6 (as amended). When the drawn document is Fraktur and its fetch delivers lines,
  \<open>CacheLines\<close> passes the marshalled lines to \<open>WriteFile\<close> for the path
  \<open>Join(Join(cachePath, Itoa(year)), ident + ".json")\<close> and returns exactly that path;
  when that write succeeds, the file at the path holds the marshalled lines.
\<close>

theorem CacheLines_returns_written_path:
  assumes frak: "fst (IsFraktur c (clock w) (drawn c year w))"
    and fetch: "FetchLines c (clock w) (drawn c year w) = Inr received"
    and lines: "fetchOutcome received = Some (Inr lines)"
  shows "CacheLines c cachePath year printProgress w =
           Some (cacheFilePath c cachePath year w,
                 snd (WriteFile (fetching c year w) (cacheFilePath c cachePath year w) (Marshal c lines))) \<and>
         (fst (WriteFile (fetching c year w) (cacheFilePath c cachePath year w) (Marshal c lines)) = None \<longrightarrow>
            lookupNode
              (root (snd (WriteFile (fetching c year w) (cacheFilePath c cachePath year w) (Marshal c lines))))
              (resolve w (cacheFilePath c cachePath year w)) = Inr (File (Marshal c lines)))"
proof -
  let ?p = "cacheFilePath c cachePath year w"
  let ?w1 = "fetching c year w"
  have "fillAttempt c cachePath year printProgress w =
          Return ?p (snd (WriteFile ?w1 ?p (Marshal c lines)))"
    using frak fetch lines
    by (simp add: fillAttempt_fetched selectLoop_lines cacheFilePath_def)
  then have ret: "CacheLines c cachePath year printProgress w =
      Some (?p, snd (WriteFile ?w1 ?p (Marshal c lines)))"
    by (rule CacheLines_Return)
  have same: "resolve (snd (WriteFile ?w1 ?p (Marshal c lines))) ?p = resolve w ?p"
    using WriteFile_frame [of ?w1 ?p "Marshal c lines"]
    by (simp add: resolve_def fetching_def logPrint_def)
  show ?thesis
    using ret WriteFile_written [of ?w1 ?p "Marshal c lines"] same by simp
qed

theorem CacheLines_returns_written_path_witness:
  "CacheLines steady ''/cache'' 1860 True cacheWorld =
     Some (''/cache/1860/doc0.json'',
           cacheWorld\<lparr>root := Dir [(''cache'',
               Dir [(''1850'', Dir [(''a.json'', File ''[]''), (''b.json'', File ''[]'')]),
                    (''1860'', Dir [(''doc0.json'', File ''[img]'')])])],
             logged := [''Caching lines for 1860 from doc0''], clock := 1\<rparr>) \<and>
   lookupNode (Dir [(''cache'',
               Dir [(''1850'', Dir [(''a.json'', File ''[]''), (''b.json'', File ''[]'')]),
                    (''1860'', Dir [(''doc0.json'', File ''[img]'')])])])
      [''cache'', ''1860'', ''doc0.json''] = Inr (File ''[img]'')"
proof -
  have frak: "fst (IsFraktur steady (clock cacheWorld) (drawn steady 1860 cacheWorld))"
    by (simp add: steady_def)
  have fetch: "FetchLines steady (clock cacheWorld) (drawn steady 1860 cacheWorld) =
      Inr [FromProgChan None, FromLineChan [sampleLine]]"
    by (simp add: steady_def)
  have lines: "fetchOutcome [FromProgChan None, FromLineChan [sampleLine]] = Some (Inr [sampleLine])"
    by simp
  have m: "Marshal steady [sampleLine] = ''[img]''"
    by (simp add: steady_def toyMarshal_def sampleLine_def)
  have r: "resolve cacheWorld ''/cache/1860/doc0.json'' = [''cache'', ''1860'', ''doc0.json'']"
    by (simp add: cacheWorld_def path_eval)
  show ?thesis
    using CacheLines_returns_written_path [OF frak fetch lines, of "''/cache''" True]
    by (simp add: steady_path steady_fetching m steady_write r)
qed

text \<open>
  The claim as stated fails where the write does: the year directory \<open>/cache/1871\<close>
  does not exist, the fetch delivers its lines, the path is returned, and there is no
  file at the path.
\<close>

theorem CacheLines_missing_directory_counterexample:
  "CacheLines steady ''/cache'' 1871 True cacheWorld =
     Some (''/cache/1871/doc0.json'',
           cacheWorld\<lparr>logged := [''Caching lines for 1871 from doc0''], clock := 1\<rparr>) \<and>
   Stat (cacheWorld\<lparr>logged := [''Caching lines for 1871 from doc0''], clock := 1\<rparr>)
     ''/cache/1871/doc0.json'' = Inl ENOENT"
proof -
  have frak: "fst (IsFraktur steady (clock cacheWorld) (drawn steady 1871 cacheWorld))"
    by (simp add: steady_def)
  have fetch: "FetchLines steady (clock cacheWorld) (drawn steady 1871 cacheWorld) =
      Inr [FromProgChan None, FromLineChan [sampleLine]]"
    by (simp add: steady_def)
  have lines: "fetchOutcome [FromProgChan None, FromLineChan [sampleLine]] = Some (Inr [sampleLine])"
    by simp
  have m: "Marshal steady [sampleLine] = ''[img]''"
    by (simp add: steady_def toyMarshal_def sampleLine_def)
  have p: "Join [Join [''/cache'', Itoa 1871], drawn steady 1871 cacheWorld @ ''.json''] =
      ''/cache/1871/doc0.json''"
    by (simp add: drawn_def steady_def cacheWorld_def path_eval)
  have f: "fetching steady 1871 cacheWorld =
      cacheWorld\<lparr>logged := [''Caching lines for 1871 from doc0''], clock := Suc 0\<rparr>"
    by (simp add: fetching_def drawn_def steady_def cacheWorld_def logPrint_def path_eval)
  have w: "WriteFile (cacheWorld\<lparr>logged := [''Caching lines for 1871 from doc0''], clock := Suc 0\<rparr>)
      ''/cache/1871/doc0.json'' ''[img]'' =
      (Some ENOENT, cacheWorld\<lparr>logged := [''Caching lines for 1871 from doc0''], clock := Suc 0\<rparr>)"
    by (simp add: WriteFile_def cacheWorld_def path_eval)
  have "fillAttempt steady ''/cache'' 1871 True cacheWorld =
      Return ''/cache/1871/doc0.json''
        (cacheWorld\<lparr>logged := [''Caching lines for 1871 from doc0''], clock := Suc 0\<rparr>)"
    unfolding fillAttempt_fetched [OF frak fetch] selectLoop_lines [OF lines] p f m w by simp
  then have ret: "CacheLines steady ''/cache'' 1871 True cacheWorld =
     Some (''/cache/1871/doc0.json'',
           cacheWorld\<lparr>logged := [''Caching lines for 1871 from doc0''], clock := 1\<rparr>)"
    by (simp add: CacheLines_Return)
  have st: "Stat (cacheWorld\<lparr>logged := [''Caching lines for 1871 from doc0''], clock := 1\<rparr>)
     ''/cache/1871/doc0.json'' = Inl ENOENT"
    by (simp add: Stat_def cacheWorld_def path_eval)
  from ret st show ?thesis
    by (rule conjI)
qed

text \<open>
  C7 (as amended). When the write of the cache file fails, \<open>CacheLines\<close> neither logs
  the failure nor treats the pass as failed: the result of \<open>WriteFile\<close> is dropped, and
  the call returns the path as after a successful write, in the world as it was when
  the fetch had begun (the only log line is the one written before the fetch).
\<close>

theorem CacheLines_ignores_write_failure:
  assumes frak: "fst (IsFraktur c (clock w) (drawn c year w))"
    and fetch: "FetchLines c (clock w) (drawn c year w) = Inr received"
    and lines: "fetchOutcome received = Some (Inr lines)"
    and failed: "fst (WriteFile (fetching c year w) (cacheFilePath c cachePath year w) (Marshal c lines)) = Some e"
  shows "CacheLines c cachePath year printProgress w =
           Some (cacheFilePath c cachePath year w, fetching c year w)"
proof -
  have "fillAttempt c cachePath year printProgress w =
          Return (cacheFilePath c cachePath year w)
            (snd (WriteFile (fetching c year w) (cacheFilePath c cachePath year w) (Marshal c lines)))"
    using frak fetch lines
    by (simp add: fillAttempt_fetched selectLoop_lines cacheFilePath_def)
  then show ?thesis
    using WriteFile_failed [OF failed] by (simp add: CacheLines_Return)
qed

theorem CacheLines_ignores_write_failure_witness:
  "CacheLines steady ''/cache'' 1880 True cacheWorld =
     Some (''/cache/1880/doc0.json'',
           cacheWorld\<lparr>logged := [''Caching lines for 1880 from doc0''], clock := 1\<rparr>)"
proof -
  have frak: "fst (IsFraktur steady (clock cacheWorld) (drawn steady 1880 cacheWorld))"
    by (simp add: steady_def)
  have fetch: "FetchLines steady (clock cacheWorld) (drawn steady 1880 cacheWorld) =
      Inr [FromProgChan None, FromLineChan [sampleLine]]"
    by (simp add: steady_def)
  have lines: "fetchOutcome [FromProgChan None, FromLineChan [sampleLine]] = Some (Inr [sampleLine])"
    by simp
  have p: "cacheFilePath steady ''/cache'' 1880 cacheWorld = ''/cache/1880/doc0.json''"
    by (simp add: cacheFilePath_def drawn_def steady_def cacheWorld_def path_eval)
  have f: "fetching steady 1880 cacheWorld =
      cacheWorld\<lparr>logged := [''Caching lines for 1880 from doc0''], clock := Suc 0\<rparr>"
    by (simp add: fetching_def drawn_def steady_def cacheWorld_def logPrint_def path_eval)
  have failed: "fst (WriteFile (fetching steady 1880 cacheWorld)
      (cacheFilePath steady ''/cache'' 1880 cacheWorld) (Marshal steady [sampleLine])) = Some ENOENT"
    unfolding p f by (simp add: WriteFile_def cacheWorld_def path_eval)
  show ?thesis
    using CacheLines_ignores_write_failure [OF frak fetch lines failed, of True]
    by (simp add: p f)
qed

text \<open>
  The claim as stated fails: the year directory \<open>/cache/1870\<close> does not exist, the
  write fails with \<open>ENOENT\<close>, and the call still returns the path, with nothing logged
  about the failure.
\<close>

theorem CacheLines_write_failure_counterexample:
  "fst (WriteFile (fetching steady 1870 cacheWorld) ''/cache/1870/doc0.json'' ''[img]'') = Some ENOENT \<and>
   CacheLines steady ''/cache'' 1870 True cacheWorld =
     Some (''/cache/1870/doc0.json'',
           cacheWorld\<lparr>logged := [''Caching lines for 1870 from doc0''], clock := 1\<rparr>)"
proof -
  have frak: "fst (IsFraktur steady (clock cacheWorld) (drawn steady 1870 cacheWorld))"
    by (simp add: steady_def)
  have fetch: "FetchLines steady (clock cacheWorld) (drawn steady 1870 cacheWorld) =
      Inr [FromProgChan None, FromLineChan [sampleLine]]"
    by (simp add: steady_def)
  have lines: "fetchOutcome [FromProgChan None, FromLineChan [sampleLine]] = Some (Inr [sampleLine])"
    by simp
  have m: "Marshal steady [sampleLine] = ''[img]''"
    by (simp add: steady_def toyMarshal_def sampleLine_def)
  have p: "Join [Join [''/cache'', Itoa 1870], drawn steady 1870 cacheWorld @ ''.json''] =
      ''/cache/1870/doc0.json''"
    by (simp add: drawn_def steady_def cacheWorld_def path_eval)
  have f: "fetching steady 1870 cacheWorld =
      cacheWorld\<lparr>logged := [''Caching lines for 1870 from doc0''], clock := Suc 0\<rparr>"
    by (simp add: fetching_def drawn_def steady_def cacheWorld_def logPrint_def path_eval)
  have w: "WriteFile (cacheWorld\<lparr>logged := [''Caching lines for 1870 from doc0''], clock := Suc 0\<rparr>)
      ''/cache/1870/doc0.json'' ''[img]'' =
      (Some ENOENT, cacheWorld\<lparr>logged := [''Caching lines for 1870 from doc0''], clock := Suc 0\<rparr>)"
    by (simp add: WriteFile_def cacheWorld_def path_eval)
  have "fillAttempt steady ''/cache'' 1870 True cacheWorld =
      Return ''/cache/1870/doc0.json''
        (cacheWorld\<lparr>logged := [''Caching lines for 1870 from doc0''], clock := Suc 0\<rparr>)"
    unfolding fillAttempt_fetched [OF frak fetch] selectLoop_lines [OF lines] p f m w by simp
  then show ?thesis
    unfolding f w by (simp add: CacheLines_Return)
qed


section \<open>Properties of the watcher\<close>





text \<open>
  Apart from that, \<open>make([]string, len(dirContent))\<close> followed by \<open>append\<close> counts
  every entry of a year directory once and every cached file a second time: the
  directory 1850 with two cached files counts as four and is not topped up, while the
  empty directory 1860 gets its three files.
\<close>

lemma cacheWatcher_counts_entries_twice:
  "map_option (\<lambda>(res, w). (cachedCount w ''/cache/1850'', cachedCount w ''/cache/1860'', clock w))
     (cacheWatcher steady ''/cache'' cacheWorld) = Some (2, 3, 3)"
  by code_simp


section \<open>Properties of start-up\<close>










lemma cacheDirOf_overrideWorld: "cacheDirOf overrideWorld = ''/srv/data/cache''"
  by (simp add: cacheDirOf_def overrideWorld_def path_eval)










text \<open>
  C9. Whatever the command line, \<open>main\<close> panics with \<open>repoPath must be set!\<close>, in the
  state it started in: the flag is read before \<open>flag.Parse\<close> has run, so it still holds
  its default, the empty string, and neither \<open>InitCache\<close> nor \<open>web.Serve\<close> is reached.
\<close>

theorem main_panics_before_Parse:
  "main d Serve args st = (Panicked ''repoPath must be set!'', st)"
  by (simp add: main_def flagBool_def flagString_def stringAt_def)

text \<open>\<open>flag.Parse\<close> itself would have set the flag.\<close>

lemma flagParse_would_set_repoPath:
  "flagParse (flagString ''repoPath'' [] (flagBool ''debug'' False [])) [''-debug'', ''-repoPath'', ''/srv/corpus''] =
     Inr [(''debug'', BoolValue True), (''repoPath'', StringValue ''/srv/corpus'')]"
  by (simp add: flagBool_def flagString_def)


section \<open>Properties of the identifier index\<close>

text \<open>
  C4. On an index built by \<open>Build\<close>, \<open>Random(year)\<close> returns only entries whose year
  is the year asked for.
\<close>

theorem indexRandom_year:
  "indexRandom (Build catalog) r year = Inr e \<Longrightarrow> Year e = year"
proof -
  assume a: "indexRandom (Build catalog) r year = Inr e"
  then have ne: "Build catalog year \<noteq> []" and e: "e = Build catalog year ! (r mod length (Build catalog year))"
    by (auto simp: indexRandom_def split: list.splits)
  then have "e \<in> set (Build catalog year)"
    by simp
  then show ?thesis
    by (simp add: Build_def)
qed

theorem indexRandom_year_witness:
  "indexRandom (Build sampleCatalog) 5 1850 = Inr \<lparr>Identifier = ''c'', Year = 1850\<rparr> \<and>
   Year \<lparr>Identifier = ''c'', Year = 1850\<rparr> = 1850"
proof -
  have "indexRandom (Build sampleCatalog) 5 1850 = Inr \<lparr>Identifier = ''c'', Year = 1850\<rparr>"
    by code_simp
  then show ?thesis
    using indexRandom_year [of sampleCatalog 5 1850 "\<lparr>Identifier = ''c'', Year = 1850\<rparr>"] by simp
qed


end
